theory Spec2Isabelle
  imports Main "HOL-Library.Sublist" "HOL-Library.Word"
begin

section \<open>Text\<close>

text \<open>
  Python text (\<^verbatim>\<open>str\<close>) is modelled by \<^typ>\<open>string\<close>, each character read as the
  Unicode code point of the same number (the code points below 256). \<^verbatim>\<open>len\<close> is
  \<^const>\<open>length\<close>, a slice \<^verbatim>\<open>s[:n]\<close> is \<^term>\<open>take n s\<close>, \<^verbatim>\<open>+\<close> is \<^term>\<open>(@)\<close>.
\<close>

definition py_isspace :: "char \<Rightarrow> bool" where
  \<comment> \<open>\<^verbatim>\<open>str.isspace\<close> on the code points below 256\<close>
  "py_isspace c \<longleftrightarrow>
     (of_char c :: nat) \<in> {9, 10, 11, 12, 13, 28, 29, 30, 31, 32, 133, 160}"

definition strip :: "string \<Rightarrow> string" where
  \<comment> \<open>\<^verbatim>\<open>s.strip()\<close>: whitespace removed at both ends\<close>
  "strip s = rev (dropWhile py_isspace (rev (dropWhile py_isspace s)))"

definition lower_char :: "char \<Rightarrow> char" where
  \<comment> \<open>\<^verbatim>\<open>c.lower()\<close> on the code points below 256: A-Z, and the Latin-1 capitals
      U+00C0..U+00DE except the multiplication sign U+00D7\<close>
  "lower_char c =
     (let n = (of_char c :: nat)
      in if (65 \<le> n \<and> n \<le> 90) \<or> (192 \<le> n \<and> n \<le> 222 \<and> n \<noteq> 215)
         then char_of (n + 32) else c)"

definition lower :: "string \<Rightarrow> string" where
  "lower s = map lower_char s"

definition lstrip :: "string \<Rightarrow> string \<Rightarrow> string" where
  \<comment> \<open>\<^verbatim>\<open>s.lstrip(chars)\<close>: the second argument of Python's method is a SET of
      characters; every leading character of \<open>s\<close> that belongs to it is removed\<close>
  "lstrip chars s = dropWhile (\<lambda>c. c \<in> set chars) s"


section \<open>The store\<close>

text \<open>
  What the module takes from outside itself is gathered in an environment, read by the
  call that needs it: \<^verbatim>\<open>urlparse(url).netloc\<close> (\<open>None\<close> when \<^verbatim>\<open>urlparse\<close> raises),
  \<^verbatim>\<open>json.dumps(arguments, default=str)\<close>, \<^verbatim>\<open>datetime.now().isoformat()\<close> and SQLite's
  \<^verbatim>\<open>datetime('now')\<close>. The latter is a text \<^verbatim>\<open>YYYY-MM-DD HH:MM:SS\<close>, whose order as text
  is the order in time; the model keeps the instant as a number of seconds. SQLite reads
  the clock once in a statement, and a call runs at most one \<^verbatim>\<open>INSERT\<close> and one
  \<^verbatim>\<open>UPDATE\<close>: \<open>insert_now\<close> is the clock as the \<^verbatim>\<open>INSERT\<close> of the call reads it (both
  defaults of the new row), \<open>update_now\<close> the clock as its \<^verbatim>\<open>UPDATE\<close> reads it. The type
  \<open>'a\<close> is that of a tool call's arguments as JSON keeps them (a round trip through
  \<^verbatim>\<open>json.dumps\<close> and \<^verbatim>\<open>json.loads\<close> returns them as they are). The limits of SQLite on
  the size of a text are not part of the model.
\<close>

record 'a env =
  urlparse_netloc :: "string \<Rightarrow> string option"
  json_dumps :: "'a \<Rightarrow> string"
  datetime_now :: string
  insert_now :: nat
  update_now :: nat

text \<open>A step: one element of the JSON array \<^verbatim>\<open>steps_json\<close>, with the keys of the source.\<close>

record 'a step =
  step_id :: int
  url :: string
  step_domain :: string
  tool_name :: string
  arguments :: 'a
  arguments_json :: string
  result :: string
  result_summary :: string
  timestamp :: string
  led_to_data :: "bool option"
  evaluator_notes :: "string option"

text \<open>A row of \<^verbatim>\<open>scrape_requests\<close>; \<open>req_id\<close> is the column \<^verbatim>\<open>id\<close>, an
  \<^verbatim>\<open>INTEGER PRIMARY KEY\<close>, which SQLite keeps as a signed integer of 64 bits (\<^const>\<open>sint\<close>
  reads it); \<open>steps\<close> is the parsed \<^verbatim>\<open>steps_json\<close>, \<open>success\<close> the INTEGER column (0 or
  1, or NULL).\<close>

record 'a request =
  req_id :: "64 word"
  prompt :: string
  domain :: "string option"
  steps :: "'a step list"
  final_result :: "string option"
  success :: "int option"
  created_at :: nat
  updated_at :: nat

text \<open>A row of \<^verbatim>\<open>scraping_advice\<close>.\<close>

record advice_row =
  advice_id :: "64 word"
  advice_domain :: string
  advice :: string
  advice_created_at :: nat

text \<open>
  The state: the rows of the two tables, in the order of their insertion, and the
  request id of the thread-local \<^verbatim>\<open>_thread_local.request_id\<close> of the one thread
  the model follows.
\<close>

record 'a store =
  scrape_requests :: "'a request list"
  scraping_advice :: "advice_row list"
  current_request_id :: "int option"

text \<open>The errors. The first two are Python's \<^verbatim>\<open>ValueError\<close>, raised by the module with
  the messages \<^verbatim>\<open>Scrape request {request_id} not found\<close> and
  \<^verbatim>\<open>Step {step_id} not found in request {request_id}\<close>. The others come from the
  \<^verbatim>\<open>sqlite3\<close> library: \<^verbatim>\<open>OverflowError\<close> (\<^verbatim>\<open>Python int too large to convert to SQLite
  INTEGER\<close>) when a statement is given an integer outside 64 bits as a parameter, and
  \<^verbatim>\<open>sqlite3.OperationalError\<close> with the message \<^verbatim>\<open>database or disk is full\<close> or
  \<^verbatim>\<open>LIKE or GLOB pattern too complex\<close>.\<close>

datatype error =
    RequestNotFound int
  | StepNotFound int int
  | OverflowError
  | DatabaseFull
  | LikePatternTooComplex

definition fits_int64 :: "int \<Rightarrow> bool" where
  \<comment> \<open>the integers that \<^verbatim>\<open>sqlite3\<close> binds to a parameter \<^verbatim>\<open>?\<close>\<close>
  "fits_int64 i \<longleftrightarrow> - (2 ^ 63) \<le> i \<and> i < 2 ^ 63"

definition empty_store :: "'a store" where
  "empty_store = \<lparr>scrape_requests = [], scraping_advice = [], current_request_id = None\<rparr>"

definition init_db :: "'a store \<Rightarrow> 'a store" where
  \<comment> \<open>\<^verbatim>\<open>init_db\<close> creates the two tables and their indexes when they are absent, and
      drops the table \<^verbatim>\<open>scrape_history\<close> of an older layout, which no operation reads.
      Every operation calls it first, so an absent table is never seen: the state above
      holds an absent table as an empty one, and \<^verbatim>\<open>init_db\<close> leaves that state as it is.\<close>
  "init_db st = st"

definition get_current_request_id :: "'a store \<Rightarrow> int option" where
  "get_current_request_id st = current_request_id st"

definition set_current_request_id :: "int option \<Rightarrow> 'a store \<Rightarrow> 'a store" where
  "set_current_request_id rid st = st\<lparr>current_request_id := rid\<rparr>"

definition lastrowid :: "64 word list \<Rightarrow> int" where
  \<comment> \<open>\<^verbatim>\<open>INTEGER PRIMARY KEY AUTOINCREMENT\<close>: one more than the largest id the table has
      held (no operation deletes a row), 1 when none is positive\<close>
  "lastrowid ids = 1 + fold max (map sint ids) 0"

definition autoincrement :: "64 word list \<Rightarrow> error + 64 word" where
  \<comment> \<open>the id of a new row; a table that has held the largest id of 64 bits takes no
      further row (\<^verbatim>\<open>database or disk is full\<close>)\<close>
  "autoincrement ids =
     (if fits_int64 (lastrowid ids) then Inr (word_of_int (lastrowid ids)) else Inl DatabaseFull)"

definition find_request :: "int \<Rightarrow> 'a request list \<Rightarrow> 'a request option" where
  \<comment> \<open>the row whose id is \<open>rid\<close>, when there is one\<close>
  "find_request rid rows = find (\<lambda>r. sint (req_id r) = rid) rows"

definition select_request :: "int \<Rightarrow> 'a request list \<Rightarrow> error + 'a request option" where
  \<comment> \<open>\<^verbatim>\<open>SELECT ... FROM scrape_requests WHERE id = ?\<close> with the parameter \<open>rid\<close>, and
      \<^verbatim>\<open>fetchone()\<close>: the parameter is bound first, which fails when it is outside 64 bits\<close>
  "select_request rid rows =
     (if fits_int64 rid then Inr (find_request rid rows) else Inl OverflowError)"

definition update_request :: "int \<Rightarrow> ('a request \<Rightarrow> 'a request) \<Rightarrow> 'a store \<Rightarrow> 'a store" where
  \<comment> \<open>what \<^verbatim>\<open>UPDATE scrape_requests SET ... WHERE id = ?\<close> does to the table, once its
      parameters are bound\<close>
  "update_request rid f st =
     st\<lparr>scrape_requests :=
          map (\<lambda>r. if sint (req_id r) = rid then f r else r) (scrape_requests st)\<rparr>"


definition domain_from_url :: "'a env \<Rightarrow> string \<Rightarrow> string" where
  "domain_from_url e u =
     (case urlparse_netloc e u of
        None \<Rightarrow> ''(unknown)''
      | Some netloc \<Rightarrow>
          (let d = lstrip ''www.'' (lower netloc)
           in if d = [] then ''(no domain)'' else d))"

definition start_scrape_request ::
  "'a env \<Rightarrow> string \<Rightarrow> 'a store \<Rightarrow> error + int \<times> 'a store" where
  "start_scrape_request e p st0 =
     (let st = init_db st0
      in case autoincrement (map req_id (scrape_requests st)) of
           Inl err \<Rightarrow> Inl err
         | Inr new_id \<Rightarrow>
             (let row = \<lparr>req_id = new_id, prompt = p, domain = None, steps = [],
                         final_result = None, success = None,
                         created_at = insert_now e, updated_at = insert_now e\<rparr>;
                  request_id = sint new_id
              in Inr (request_id,
                      set_current_request_id (Some request_id)
                        (st\<lparr>scrape_requests := scrape_requests st @ [row]\<rparr>))))"

definition RESULT_SUMMARY_MAX :: nat where
  "RESULT_SUMMARY_MAX = 500"

definition summary_of :: "string \<Rightarrow> string" where
  \<comment> \<open>\<^verbatim>\<open>result[:_RESULT_SUMMARY_MAX] + ("..." if len(result) > _RESULT_SUMMARY_MAX else "")\<close>\<close>
  "summary_of r =
     take RESULT_SUMMARY_MAX r @ (if length r > RESULT_SUMMARY_MAX then ''...'' else [])"

definition resolve_request_id ::
  "'a env \<Rightarrow> int option \<Rightarrow> 'a store \<Rightarrow> error + int \<times> 'a store" where
  \<comment> \<open>the first lines of \<^verbatim>\<open>log_tool_call\<close>: the explicit id, else the thread's current
      request, else a request created on the spot\<close>
  "resolve_request_id e request_id st =
     (case request_id of
        Some r \<Rightarrow> Inr (r, st)
      | None \<Rightarrow>
          (case get_current_request_id st of
             Some r \<Rightarrow> Inr (r, st)
           | None \<Rightarrow> start_scrape_request e ''(auto-created from tool call)'' st))"

definition new_step :: "'a env \<Rightarrow> string \<Rightarrow> string \<Rightarrow> 'a \<Rightarrow> string \<Rightarrow> int \<Rightarrow> 'a step" where
  "new_step e u tool args res sid =
     \<lparr>step_id = sid, url = u, step_domain = domain_from_url e u, tool_name = tool,
      arguments = args, arguments_json = json_dumps e args, result = res,
      result_summary = summary_of res, timestamp = datetime_now e,
      led_to_data = None, evaluator_notes = None\<rparr>"

definition log_tool_call ::
  "'a env \<Rightarrow> string \<Rightarrow> string \<Rightarrow> 'a \<Rightarrow> string \<Rightarrow> int option \<Rightarrow> 'a store \<Rightarrow> error + 'a store" where
  \<comment> \<open>the \<^verbatim>\<open>UPDATE\<close> binds the id that the \<^verbatim>\<open>SELECT\<close> before it has bound\<close>
  "log_tool_call e u tool args res request_id st0 =
     (case resolve_request_id e request_id (init_db st0) of
        Inl err \<Rightarrow> Inl err
      | Inr (rid, st) \<Rightarrow>
          (case select_request rid (scrape_requests st) of
             Inl err \<Rightarrow> Inl err
           | Inr None \<Rightarrow> Inl (RequestNotFound rid)
           | Inr (Some row) \<Rightarrow>
               (let st_steps = steps row @ [new_step e u tool args res (int (length (steps row)))];
                    new_domain = (case domain row of
                                    None \<Rightarrow> domain_from_url e u
                                  | Some d \<Rightarrow> if d = [] then domain_from_url e u else d)
                in Inr (update_request rid
                          (\<lambda>r. r\<lparr>steps := st_steps, domain := Some new_domain,
                                  updated_at := update_now e\<rparr>) st))))"


definition update_step_outcome ::
  "'a env \<Rightarrow> int \<Rightarrow> int \<Rightarrow> bool option \<Rightarrow> string option \<Rightarrow> 'a store \<Rightarrow> error + 'a store" where
  \<comment> \<open>the \<^verbatim>\<open>UPDATE\<close> binds the id that the \<^verbatim>\<open>SELECT\<close> before it has bound\<close>
  "update_step_outcome e rid sid led notes st0 =
     (let st = init_db st0
      in if led = None \<and> notes = None then Inr st
         else case select_request rid (scrape_requests st) of
                Inl err \<Rightarrow> Inl err
              | Inr None \<Rightarrow> Inl (RequestNotFound rid)
              | Inr (Some row) \<Rightarrow>
                  if sid < 0 \<or> sid \<ge> int (length (steps row))
                  then Inl (StepNotFound sid rid)
                  else
                    (let i = nat sid;
                         s0 = steps row ! i;
                         s1 = (case led of None \<Rightarrow> s0 | Some b \<Rightarrow> s0\<lparr>led_to_data := Some b\<rparr>);
                         s2 = (case notes of None \<Rightarrow> s1 | Some n \<Rightarrow> s1\<lparr>evaluator_notes := Some n\<rparr>);
                         st_steps = (steps row)[i := s2]
                     in Inr (update_request rid
                               (\<lambda>r. r\<lparr>steps := st_steps, updated_at := update_now e\<rparr>) st)))"

section \<open>Queries\<close>

definition like_lower :: "char \<Rightarrow> char" where
  \<comment> \<open>the case folding of SQLite's \<^verbatim>\<open>LIKE\<close>: the 26 letters of ASCII only\<close>
  "like_lower c =
     (let n = (of_char c :: nat) in if 65 \<le> n \<and> n \<le> 90 then char_of (n + 32) else c)"

fun like_match :: "string \<Rightarrow> string \<Rightarrow> bool" where
  \<comment> \<open>\<^verbatim>\<open>text LIKE pattern\<close> (pattern first), with no \<^verbatim>\<open>ESCAPE\<close>: \<^verbatim>\<open>%\<close> stands for any
      run of characters, \<^verbatim>\<open>_\<close> for any one character, any other character for itself
      up to the case of an ASCII letter\<close>
  "like_match [] s = (s = [])"
| "like_match (p # ps) s =
     (if p = CHR ''%'' then
        like_match ps s \<or> (case s of [] \<Rightarrow> False | _ # cs \<Rightarrow> like_match (p # ps) cs)
      else
        (case s of
           [] \<Rightarrow> False
         | c # cs \<Rightarrow> (p = CHR ''_'' \<or> like_lower p = like_lower c) \<and> like_match ps cs))"

definition c_string :: "string \<Rightarrow> string" where
  \<comment> \<open>\<^verbatim>\<open>LIKE\<close> reads its two operands as strings of C: up to the first character NUL\<close>
  "c_string s = takeWhile (\<lambda>c. c \<noteq> CHR 0x00) s"

definition like_contains :: "string \<Rightarrow> string \<Rightarrow> bool" where
  \<comment> \<open>\<^verbatim>\<open>column LIKE ?\<close> with the parameter \<^verbatim>\<open>f"%{domain}%"\<close>\<close>
  "like_contains d col = like_match (c_string (''%'' @ d @ ''%'')) (c_string col)"

definition utf8_length :: "string \<Rightarrow> int" where
  \<comment> \<open>the number of bytes of a text in UTF-8: one for a code point below 128, two for the
      others below 256\<close>
  "utf8_length s = sum_list (map (\<lambda>c. if (of_char c :: nat) < 128 then 1 else 2) s)"

definition like_pattern_too_complex :: "string \<Rightarrow> bool" where
  \<comment> \<open>\<^verbatim>\<open>LIKE\<close> refuses a pattern of more than 50000 bytes
      (\<^verbatim>\<open>SQLITE_MAX_LIKE_PATTERN_LENGTH\<close>), each time it is evaluated on a row\<close>
  "like_pattern_too_complex d \<longleftrightarrow> utf8_length (''%'' @ d @ ''%'') > 50000"

definition wildcard_free :: "string \<Rightarrow> bool" where
  \<comment> \<open>a pattern in which no character is one of \<^verbatim>\<open>LIKE\<close>'s two wildcards\<close>
  "wildcard_free p \<longleftrightarrow> CHR ''%'' \<notin> set p \<and> CHR ''_'' \<notin> set p"


definition clamp_limit :: "int \<Rightarrow> int" where
  \<comment> \<open>\<^verbatim>\<open>max(1, min(limit, 500))\<close>\<close>
  "clamp_limit l = max 1 (min l 500)"

definition domain_filter :: "string option \<Rightarrow> string option" where
  \<comment> \<open>\<^verbatim>\<open>(domain or "").strip().lower() if domain else None\<close>, and then the test
      \<^verbatim>\<open>if domain:\<close> that guards the \<^verbatim>\<open>LIKE\<close> clause: \<open>None\<close> is "no filter"\<close>
  "domain_filter d =
     (case d of
        None \<Rightarrow> None
      | Some x \<Rightarrow> if x = [] then None
                  else (let y = lower (strip x) in if y = [] then None else Some y))"





subsection \<open>Advice\<close>

definition add_advice ::
  "'a env \<Rightarrow> string \<Rightarrow> string \<Rightarrow> 'a store \<Rightarrow> error + int \<times> 'a store" where
  "add_advice e dmn adv st0 =
     (let st = init_db st0;
          d = lstrip ''www.'' (lower (strip dmn))
      in case autoincrement (map advice_id (scraping_advice st)) of
           Inl err \<Rightarrow> Inl err
         | Inr new_id \<Rightarrow>
             (let row = \<lparr>advice_id = new_id, advice_domain = d, advice = adv,
                         advice_created_at = insert_now e\<rparr>
              in Inr (sint new_id, st\<lparr>scraping_advice := scraping_advice st @ [row]\<rparr>)))"

definition get_advice :: "string option \<Rightarrow> int \<Rightarrow> 'a store \<Rightarrow> error + advice_row list" where
  "get_advice dmn lim st0 =
     (let st = init_db st0;
          d = domain_filter dmn;
          n = clamp_limit lim
      in case d of
           None \<Rightarrow> Inr (take (nat n) (rev (sort_key advice_created_at (scraping_advice st))))
         | Some f \<Rightarrow>
             if scraping_advice st \<noteq> [] \<and> like_pattern_too_complex f
             then Inl LikePatternTooComplex
             else Inr (take (nat n)
                         (rev (sort_key advice_created_at
                                 (filter (\<lambda>r. like_contains f (advice_domain r))
                                    (scraping_advice st))))))"

fun join :: "string \<Rightarrow> string list \<Rightarrow> string" where
  \<comment> \<open>\<^verbatim>\<open>sep.join(xs)\<close>\<close>
  "join sep [] = []"
| "join sep [x] = x"
| "join sep (x # y # ys) = x @ sep @ join sep (y # ys)"

definition get_advice_for_domain :: "string \<Rightarrow> 'a store \<Rightarrow> error + string" where
  "get_advice_for_domain dmn st =
     (let d = lstrip ''www.'' (lower (strip dmn))
      in case get_advice (Some d) 10 st of
           Inl err \<Rightarrow> Inl err
         | Inr advice_list \<Rightarrow>
             if advice_list = [] then Inr []
             else Inr (''[Advice for '' @ d @ '': '' @ join ''; '' (map advice advice_list)
                       @ '']''))"

section \<open>Sequences of calls, and examples\<close>

text \<open>The arguments of one \<^verbatim>\<open>log_tool_call\<close>, and a run of such calls on one request,
  one after the other, which stops at the first error as the exception would.\<close>

record 'a call =
  call_env :: "'a env"
  call_url :: string
  call_tool :: string
  call_arguments :: 'a
  call_result :: string











text \<open>An environment for the examples. Its \<open>urlparse_netloc\<close> is what \<^verbatim>\<open>urlparse\<close>
  returns as \<^verbatim>\<open>netloc\<close> for a URL \<^verbatim>\<open>scheme://netloc/path\<close>: the text between the two
  slashes and the next \<^verbatim>\<open>/\<close>, \<^verbatim>\<open>?\<close> or \<^verbatim>\<open>#\<close>. Its arguments are JSON text already, and
  its two readings of the clock are the same instant.\<close>

definition example_netloc :: "string \<Rightarrow> string option" where
  "example_netloc u =
     (let r = dropWhile (\<lambda>c. c \<noteq> CHR ''/'') u
      in if take 2 r = ''//''
         then Some (takeWhile (\<lambda>c. c \<noteq> CHR ''/'' \<and> c \<noteq> CHR ''?'' \<and> c \<noteq> CHR ''#'') (drop 2 r))
         else Some [])"

definition example_env :: "nat \<Rightarrow> string env" where
  "example_env t =
     \<lparr>urlparse_netloc = example_netloc, json_dumps = (\<lambda>a. a),
      datetime_now = ''2026-02-12T10:00:00'', insert_now = t, update_now = t\<rparr>"


definition example_store :: "string store" where
  "example_store =
     snd (projr (start_scrape_request (example_env 5) ''scrape foo'' empty_store))"

definition example_store1 :: "string store" where
  "example_store1 =
     projr (log_tool_call (example_env 6) ''https://Example.com/a'' ''http_request'' ''{}''
              ''ok'' (Some 1) example_store)"


section \<open>Properties\<close>

subsection \<open>Rows and ids\<close>

lemma sint_fits: "fits_int64 (sint (w :: 64 word))"
  using sint_ge [of w] sint_lt [of w] by (simp add: fits_int64_def)

lemma sint_word_of_int_fits: "fits_int64 i \<Longrightarrow> sint (word_of_int i :: 64 word) = i"
  by (simp add: fits_int64_def sint_sbintrunc' signed_take_bit_int_eq_self)


lemma fold_max_ge_init: "(a::int) \<le> fold max xs a"
  by (induction xs arbitrary: a) (auto intro: order_trans [OF max.cobounded2])

lemma fold_max_ge_elem: "x \<in> set xs \<Longrightarrow> (x::int) \<le> fold max xs a"
proof (induction xs arbitrary: a)
  case Nil
  then show ?case by simp
next
  case (Cons y ys)
  show ?case
  proof (cases "x = y")
    case True
    have "y \<le> max y a" by simp
    also have "\<dots> \<le> fold max ys (max y a)" by (rule fold_max_ge_init)
    finally show ?thesis using True by simp
  next
    case False
    with Cons show ?thesis by simp
  qed
qed

lemma lastrowid_fresh: "x \<in> set ids \<Longrightarrow> sint x \<noteq> lastrowid ids"
  using fold_max_ge_elem [of "sint x" "map sint ids" 0] by (auto simp: lastrowid_def)

lemma lastrowid_positive: "1 \<le> lastrowid ids"
  using fold_max_ge_init [of 0 "map sint ids"] by (simp add: lastrowid_def)

lemma autoincrement_Inr:
  "autoincrement ids = Inr w \<Longrightarrow>
     fits_int64 (lastrowid ids) \<and> sint w = lastrowid ids \<and> w \<notin> set ids"
  using lastrowid_fresh [of w ids]
  by (auto simp: autoincrement_def sint_word_of_int_fits split: if_splits)



lemma find_request_Some_id: "find_request rid rows = Some r \<Longrightarrow> sint (req_id r) = rid"
  by (auto simp: find_request_def dest: find_Some_iff [THEN iffD1])


lemma find_request_fits: "find_request rid rows = Some r \<Longrightarrow> fits_int64 rid"
  using find_request_Some_id [of rid rows r] sint_fits [of "req_id r"] by auto

lemma select_request_found:
  "find_request rid rows = Some r \<Longrightarrow> select_request rid rows = Inr (Some r)"
  by (simp add: select_request_def find_request_fits)

lemma select_request_Inr:
  "select_request rid rows = Inr x \<Longrightarrow> fits_int64 rid \<and> x = find_request rid rows"
  by (auto simp: select_request_def split: if_splits)

lemma find_request_map:
  assumes "\<And>r. req_id (f r) = req_id r"
  shows "find_request rid (map (\<lambda>r. if sint (req_id r) = rid then f r else r) rows) =
         map_option f (find_request rid rows)"
  using assms by (induction rows) (auto simp: find_request_def)

lemma find_request_update_request:
  assumes "\<And>r. req_id (f r) = req_id r"
  shows "find_request rid (scrape_requests (update_request rid f st)) =
         map_option f (find_request rid (scrape_requests st))"
  using find_request_map [OF assms] by (simp add: update_request_def)


lemma log_tool_call_found:
  assumes "find_request rid (scrape_requests st) = Some row"
  shows "log_tool_call e u tool args res (Some rid) st =
     Inr (update_request rid
            (\<lambda>r. r\<lparr>steps := steps row @ [new_step e u tool args res (int (length (steps row)))],
                    domain := Some (case domain row of None \<Rightarrow> domain_from_url e u
                                    | Some d \<Rightarrow> if d = [] then domain_from_url e u else d),
                    updated_at := update_now e\<rparr>) st)"
  using assms
  by (simp add: log_tool_call_def resolve_request_id_def init_db_def select_request_found)

subsection \<open>Steps\<close>












subsection \<open>The invariant of the store\<close>



lemma start_scrape_request_Inr:
  assumes "start_scrape_request e p st = Inr (rid, st')"
  shows "rid = lastrowid (map req_id (scrape_requests st))"
    and "fits_int64 rid"
    and "st' = st\<lparr>scrape_requests := scrape_requests st @
                  [\<lparr>req_id = word_of_int rid, prompt = p, domain = None, steps = [],
                    final_result = None, success = None,
                    created_at = insert_now e, updated_at = insert_now e\<rparr>],
                current_request_id := Some rid\<rparr>"
  using assms
  by (auto simp: start_scrape_request_def init_db_def set_current_request_id_def Let_def
        autoincrement_def sint_word_of_int_fits split: if_splits)


lemma start_scrape_request_full:
  "\<not> fits_int64 (lastrowid (map req_id (scrape_requests st))) \<Longrightarrow>
   start_scrape_request e p st = Inl DatabaseFull"
  by (simp add: start_scrape_request_def init_db_def autoincrement_def)

lemma scrape_requests_start:
  assumes "start_scrape_request e p st = Inr (rid, st')"
  shows "scrape_requests st' =
     scrape_requests st @
       [\<lparr>req_id = word_of_int rid, prompt = p, domain = None,
         steps = [], final_result = None, success = None,
         created_at = insert_now e, updated_at = insert_now e\<rparr>]"
  by (simp add: start_scrape_request_Inr(3) [OF assms])








lemma log_tool_call_cases:
  assumes "log_tool_call e u tool args res request_id st = Inr st'"
  shows "\<exists>rid st1 row.
           resolve_request_id e request_id st = Inr (rid, st1) \<and>
           find_request rid (scrape_requests st1) = Some row \<and>
           st' = update_request rid
             (\<lambda>r. r\<lparr>steps := steps row @ [new_step e u tool args res (int (length (steps row)))],
                     domain := Some (case domain row of None \<Rightarrow> domain_from_url e u
                                     | Some d \<Rightarrow> if d = [] then domain_from_url e u else d),
                     updated_at := update_now e\<rparr>) st1"
proof -
  from assms obtain rid st1 where rs: "resolve_request_id e request_id st = Inr (rid, st1)"
    by (auto simp: log_tool_call_def init_db_def split: sum.splits)
  with assms obtain x where x: "select_request rid (scrape_requests st1) = Inr x"
    by (auto simp: log_tool_call_def init_db_def split: sum.splits)
  with assms rs obtain row where row: "x = Some row"
    by (auto simp: log_tool_call_def init_db_def split: option.splits)
  from select_request_Inr [OF x] row have f: "find_request rid (scrape_requests st1) = Some row"
    by simp
  from assms rs x row have "st' = update_request rid
             (\<lambda>r. r\<lparr>steps := steps row @ [new_step e u tool args res (int (length (steps row)))],
                     domain := Some (case domain row of None \<Rightarrow> domain_from_url e u
                                     | Some d \<Rightarrow> if d = [] then domain_from_url e u else d),
                     updated_at := update_now e\<rparr>) st1"
    by (simp add: log_tool_call_def init_db_def)
  with rs f show ?thesis by blast
qed








subsection \<open>Runs of calls on one request\<close>






subsection \<open>Patterns and queries\<close>

lemma like_match_literal:
  "wildcard_free p \<Longrightarrow> like_match p s \<longleftrightarrow> map like_lower p = map like_lower s"
proof (induction p arbitrary: s)
  case Nil
  then show ?case by auto
next
  case (Cons a p)
  then have "wildcard_free p" "a \<noteq> CHR ''%''" "a \<noteq> CHR ''_''"
    by (auto simp: wildcard_free_def)
  with Cons.IH show ?case by (cases s) auto
qed

















subsection \<open>The examples\<close>

lemma example_store_run:
  "start_scrape_request (example_env 5) ''scrape foo'' empty_store = Inr (1, example_store)"
  by (simp add: example_store_def example_env_def empty_store_def start_scrape_request_def
        init_db_def set_current_request_id_def autoincrement_def lastrowid_def fits_int64_def
        Let_def)

lemma example_store_rows:
  "scrape_requests example_store =
     [\<lparr>req_id = 1, prompt = ''scrape foo'', domain = None, steps = [], final_result = None,
       success = None, created_at = 5, updated_at = 5\<rparr>]"
  using scrape_requests_start [OF example_store_run]
  by (simp add: empty_store_def example_env_def)

lemma example_store_find:
  "find_request 1 (scrape_requests example_store) =
     Some \<lparr>req_id = 1, prompt = ''scrape foo'', domain = None, steps = [], final_result = None,
       success = None, created_at = 5, updated_at = 5\<rparr>"
  "find_request 2 (scrape_requests example_store) = None"
  by (simp_all add: example_store_rows find_request_def)


lemma example_domain: "domain_from_url (example_env t) ''https://Example.com/a'' = ''example.com''"
  by code_simp


lemma example_store1_rows:
  "scrape_requests example_store1 =
     [\<lparr>req_id = 1, prompt = ''scrape foo'', domain = Some ''example.com'',
       steps = [\<lparr>step_id = 0, url = ''https://Example.com/a'', step_domain = ''example.com'',
                 tool_name = ''http_request'', arguments = ''{}'', arguments_json = ''{}'',
                 result = ''ok'', result_summary = ''ok'', timestamp = ''2026-02-12T10:00:00'',
                 led_to_data = None, evaluator_notes = None\<rparr>],
       final_result = None, success = None, created_at = 5, updated_at = 6\<rparr>]"
  by (simp add: example_store1_def log_tool_call_found [OF example_store_find(1)]
        update_request_def example_store_rows new_step_def example_domain summary_of_def
        RESULT_SUMMARY_MAX_def)
     (simp add: example_env_def)






section \<open>The claims\<close>



text \<open>
  C3. The code at the failing inputs of the claim: \<^verbatim>\<open>lstrip("www.")\<close> removes every leading
  \<^verbatim>\<open>w\<close> and \<^verbatim>\<open>.\<close>, not the prefix \<^verbatim>\<open>www.\<close> once. The host \<^verbatim>\<open>web.example.com\<close>, which does
  not begin with \<^verbatim>\<open>www.\<close>, is stored as \<^verbatim>\<open>eb.example.com\<close> by \<^verbatim>\<open>_domain_from_url\<close> and by
  \<^verbatim>\<open>add_advice\<close>, and \<^verbatim>\<open>www.wikipedia.org\<close> as \<^verbatim>\<open>ikipedia.org\<close>;
  \<^verbatim>\<open>get_advice_for_domain\<close> names the domain the same way.
\<close>

theorem www_prefix_lstrip:
  "domain_from_url (example_env 1) ''https://web.example.com/a'' = ''eb.example.com'' \<and>
   domain_from_url (example_env 1) ''https://www.wikipedia.org/wiki'' = ''ikipedia.org'' \<and>
   map_sum id (\<lambda>r. map advice_domain (scraping_advice (snd r)))
     (add_advice (example_env 1) ''web.example.com'' ''use the browser''
        (empty_store :: string store)) = Inr [''eb.example.com''] \<and>
   map_sum id (\<lambda>r. map advice_domain (scraping_advice (snd r)))
     (add_advice (example_env 1) ''WWW.Wikipedia.org'' ''use the browser''
        (empty_store :: string store)) = Inr [''ikipedia.org''] \<and>
   get_advice_for_domain ''web.example.com''
     (snd (projr (add_advice (example_env 1) ''web.example.com'' ''use the browser''
                    (empty_store :: string store)))) =
     Inr ''[Advice for eb.example.com: use the browser]''"
  by code_simp



text \<open>
  C5 (as amended). When at least one of \<^verbatim>\<open>led_to_data\<close> and \<^verbatim>\<open>evaluator_notes\<close> is given,
  \<^verbatim>\<open>update_step_outcome\<close> fails with the error "request not found" when the request id is
  an integer of 64 bits that no request has, with the error "step not found" when the
  request exists and the step id is negative or not below the number of its steps, and
  with \<^verbatim>\<open>OverflowError\<close> when the request id is outside 64 bits (the \<^verbatim>\<open>SELECT\<close> cannot
  take it as its parameter). When both are omitted it returns with the store unchanged
  and no error, whatever the ids are.
\<close>

theorem update_step_outcome_errors:
  "(\<not> (led = None \<and> nts = None) \<and> fits_int64 rid \<and>
      find_request rid (scrape_requests st) = None \<longrightarrow>
      update_step_outcome e rid sid led nts st = Inl (RequestNotFound rid)) \<and>
   (\<not> (led = None \<and> nts = None) \<and> find_request rid (scrape_requests st) = Some row \<and>
      (sid < 0 \<or> int (length (steps row)) \<le> sid) \<longrightarrow>
      update_step_outcome e rid sid led nts st = Inl (StepNotFound sid rid)) \<and>
   (\<not> (led = None \<and> nts = None) \<and> \<not> fits_int64 rid \<longrightarrow>
      update_step_outcome e rid sid led nts st = Inl OverflowError) \<and>
   (led = None \<and> nts = None \<longrightarrow> update_step_outcome e rid sid led nts st = Inr st)"
proof (intro conjI impI)
  assume "\<not> (led = None \<and> nts = None) \<and> fits_int64 rid \<and>
      find_request rid (scrape_requests st) = None"
  then show "update_step_outcome e rid sid led nts st = Inl (RequestNotFound rid)"
    by (auto simp: update_step_outcome_def init_db_def select_request_def)
next
  assume a: "\<not> (led = None \<and> nts = None) \<and> find_request rid (scrape_requests st) = Some row \<and>
      (sid < 0 \<or> int (length (steps row)) \<le> sid)"
  then have "select_request rid (scrape_requests st) = Inr (Some row)"
    by (simp add: select_request_found)
  with a show "update_step_outcome e rid sid led nts st = Inl (StepNotFound sid rid)"
    by (auto simp: update_step_outcome_def init_db_def)
next
  assume "\<not> (led = None \<and> nts = None) \<and> \<not> fits_int64 rid"
  then show "update_step_outcome e rid sid led nts st = Inl OverflowError"
    by (auto simp: update_step_outcome_def init_db_def select_request_def)
next
  assume "led = None \<and> nts = None"
  then show "update_step_outcome e rid sid led nts st = Inr st"
    by (simp add: update_step_outcome_def init_db_def)
qed

theorem update_step_outcome_errors_witness:
  "update_step_outcome (example_env 9) 2 0 (Some True) None example_store =
     Inl (RequestNotFound 2) \<and>
   update_step_outcome (example_env 9) 1 1 (Some True) None example_store1 =
     Inl (StepNotFound 1 1) \<and>
   update_step_outcome (example_env 9) 1 (- 1) None (Some ''no'') example_store1 =
     Inl (StepNotFound (- 1) 1) \<and>
   update_step_outcome (example_env 9) (2 ^ 63) 0 (Some True) None example_store1 =
     Inl OverflowError \<and>
   update_step_outcome (example_env 9) 1 0 None None example_store1 = Inr example_store1"
  using update_step_outcome_errors
          [where led = "Some True" and nts = None and rid = 2 and st = example_store
             and sid = 0 and e = "example_env 9"
             and row = "hd (scrape_requests example_store)"]
    update_step_outcome_errors
          [where led = "Some True" and nts = None and rid = 1 and st = example_store1
             and sid = 1 and e = "example_env 9"
             and row = "hd (scrape_requests example_store1)"]
    update_step_outcome_errors
          [where led = None and nts = "Some ''no''" and rid = 1 and st = example_store1
             and sid = "- 1" and e = "example_env 9"
             and row = "hd (scrape_requests example_store1)"]
    update_step_outcome_errors
          [where led = "Some True" and nts = None and rid = "2 ^ 63" and st = example_store1
             and sid = 0 and e = "example_env 9"
             and row = "hd (scrape_requests example_store1)"]
    update_step_outcome_errors
          [where led = None and nts = None and rid = 1 and st = example_store1
             and sid = 0 and e = "example_env 9"]
  by (simp add: example_store_rows example_store1_rows find_request_def fits_int64_def)

text \<open>The claim as first stated fails: with both fields omitted, a request id that no
  request has raises no error; and with a field given, the id \<open>2 ^ 63\<close>, which no request
  has, raises another error than "request not found".\<close>

theorem update_step_outcome_not_found_counterexample:
  "find_request 2 (scrape_requests example_store) = None \<and>
   update_step_outcome (example_env 9) 2 0 None None example_store = Inr example_store \<and>
   update_step_outcome (example_env 9) 2 0 None None example_store \<noteq> Inl (RequestNotFound 2) \<and>
   find_request (2 ^ 63) (scrape_requests example_store) = None \<and>
   update_step_outcome (example_env 9) (2 ^ 63) 0 (Some True) None example_store =
     Inl OverflowError"
  by (simp add: example_store_rows find_request_def update_step_outcome_def init_db_def
        select_request_def fits_int64_def)







text \<open>
  C8. The \<^verbatim>\<open>result_summary\<close> of the step that \<^verbatim>\<open>log_tool_call\<close> stores is the result itself
  when the result has at most 500 characters, and otherwise its first 500 characters
  followed by \<^verbatim>\<open>...\<close>; it is never longer than 500 characters plus the three of the
  marker. The step is the last one of the request the call resolves to, and holds the
  result in full.
\<close>

theorem result_summary_truncation:
  assumes "log_tool_call e u tool args res request_id st = Inr st'"
  shows "\<exists>r. find_request (fst (projr (resolve_request_id e request_id st)))
               (scrape_requests st') = Some r \<and>
             steps r \<noteq> [] \<and>
             result (last (steps r)) = res \<and>
             result_summary (last (steps r)) =
               (if length res \<le> 500 then res else take 500 res @ ''...'') \<and>
             length (result_summary (last (steps r))) \<le> 500 + length ''...''"
proof -
  from log_tool_call_cases [OF assms] obtain rid st1 row where
    rs: "resolve_request_id e request_id st = Inr (rid, st1)" and
    row: "find_request rid (scrape_requests st1) = Some row" and
    st': "st' = update_request rid
            (\<lambda>r. r\<lparr>steps := steps row @ [new_step e u tool args res (int (length (steps row)))],
                    domain := Some (case domain row of None \<Rightarrow> domain_from_url e u
                                    | Some d \<Rightarrow> if d = [] then domain_from_url e u else d),
                    updated_at := update_now e\<rparr>) st1"
    by blast
  show ?thesis
    unfolding rs st'
    by (simp add: find_request_update_request row new_step_def summary_of_def
          RESULT_SUMMARY_MAX_def)
qed

theorem result_summary_truncation_witness:
  "\<exists>st'. log_tool_call (example_env 6) ''https://Example.com/a'' ''http_request'' ''{}''
            (replicate 501 CHR ''x'') (Some 1) example_store = Inr st' \<and>
         (\<exists>r. find_request 1 (scrape_requests st') = Some r \<and>
              result (last (steps r)) = replicate 501 CHR ''x'' \<and>
              result_summary (last (steps r)) = replicate 500 CHR ''x'' @ ''...'' \<and>
              length (result_summary (last (steps r))) = 503)"
proof -
  obtain st' where run:
    "log_tool_call (example_env 6) ''https://Example.com/a'' ''http_request'' ''{}''
            (replicate 501 CHR ''x'') (Some 1) example_store = Inr st'"
    using log_tool_call_found [OF example_store_find(1)] by blast
  from result_summary_truncation [OF run] obtain r where
    "find_request (fst (projr (resolve_request_id (example_env 6) (Some 1) example_store)))
       (scrape_requests st') = Some r"
    "result (last (steps r)) = replicate 501 CHR ''x''"
    "result_summary (last (steps r)) =
       (if length (replicate 501 CHR ''x'') \<le> 500 then replicate 501 CHR ''x''
        else take 500 (replicate 501 CHR ''x'') @ ''...'')"
    by blast
  then have "find_request 1 (scrape_requests st') = Some r \<and>
              result (last (steps r)) = replicate 501 CHR ''x'' \<and>
              result_summary (last (steps r)) = replicate 500 CHR ''x'' @ ''...'' \<and>
              length (result_summary (last (steps r))) = 503"
    by (simp add: resolve_request_id_def)
  with run show ?thesis by blast
qed

text \<open>
  C9. When \<^verbatim>\<open>update_step_outcome\<close> is called with neither \<^verbatim>\<open>led_to_data\<close> nor
  \<^verbatim>\<open>evaluator_notes\<close>, it returns without an error and leaves the store as it is,
  whatever the request id and the step id are, also when no request has that id: the
  test for the two omitted fields stands before the lookup of the request.
\<close>

theorem update_step_outcome_none_none:
  "update_step_outcome e rid sid None None st = Inr st"
  by (simp add: update_step_outcome_def init_db_def)




end
